theory Spec2Isabelle
  imports Complex_Main "HOL-Library.Multiset"
begin

section \<open>Catalog Normalizer: the vendor and storefront shapes\<close>

text \<open>
  The edge function of \<^verbatim>\<open>ProductsPage.tsx\<close> (second document, lines 206-325) declares
  the interfaces \<^verbatim>\<open>PrintfulProduct\<close> and \<^verbatim>\<open>FormattedProduct\<close>. Several of them have
  fields called \<^verbatim>\<open>id\<close>, \<^verbatim>\<open>name\<close> and \<^verbatim>\<open>value\<close>; the records below prefix those fields
  with the name of their interface and keep every other name.
\<close>

record preview_file =
  preview_url :: string

record option_entry =
  option_id :: string
  option_value :: string

record variant =
  variant_id :: string
  retail_price :: string
  files :: "preview_file list"
  options :: "option_entry list"

record PrintfulProduct =
  printful_id :: string
  printful_name :: string
  variants :: "variant list"

record Color =
  color_name :: string
  color_value :: string

text \<open>
  \<^verbatim>\<open>price\<close> is a JavaScript number. In the Normalizer it is whatever \<^verbatim>\<open>parseFloat\<close>
  returns, so the record leaves the type of numbers open and the mapping takes
  \<^verbatim>\<open>parseFloat\<close> as a parameter.
\<close>

record 'n FormattedProduct =
  product_id :: string
  product_name :: string
  price :: 'n
  description :: string
  imageUrl :: string
  imageUrls :: "string list"
  category :: string
  tags :: "string list"
  sizes :: "string list"
  colors :: "Color list"
  inStock :: bool
  isNew :: bool
  isLimited :: bool

subsection \<open>JavaScript built-ins used by the mapping\<close>

text \<open>
  \<^verbatim>\<open>String.prototype.toLowerCase\<close>, on the ASCII letters (a \<^typ>\<open>char\<close> is a byte):
  \<open>A\<close> to \<open>Z\<close> become \<open>a\<close> to \<open>z\<close> and every other byte is kept. The built-in also
  lowers the cased letters outside ASCII; the model agrees with it on ASCII strings
  only, and no statement below is about another string.
\<close>

definition lower_char :: "char \<Rightarrow> char" where
  "lower_char c =
     (case map_of (zip ''ABCDEFGHIJKLMNOPQRSTUVWXYZ'' ''abcdefghijklmnopqrstuvwxyz'') c of
        None \<Rightarrow> c
      | Some l \<Rightarrow> l)"

definition toLowerCase :: "string \<Rightarrow> string" where
  "toLowerCase s = map lower_char s"

text \<open>
  \<^verbatim>\<open>new Set(xs)\<close> adds the elements of \<^verbatim>\<open>xs\<close> one by one and keeps an element only
  when none already in the set is the same value (SameValueZero); spreading the set
  yields its elements in insertion order. Two strings are the same value when they are
  equal; two objects are the same value only when they are the same object. The
  relation is therefore a parameter.
\<close>

definition set_add :: "('a \<Rightarrow> 'a \<Rightarrow> bool) \<Rightarrow> 'a list \<Rightarrow> 'a \<Rightarrow> 'a list" where
  "set_add same s x = (if list_ex (same x) s then s else s @ [x])"

definition new_Set :: "('a \<Rightarrow> 'a \<Rightarrow> bool) \<Rightarrow> 'a list \<Rightarrow> 'a list" where
  "new_Set same xs = foldl (set_add same) [] xs"

text \<open>
  An object literal evaluates to a fresh object: the model pairs the fields with the
  reference the allocation returned, and two objects are the same exactly when their
  references are.
\<close>

datatype 'a obj = Obj (obj_ref: nat) (obj_fields: 'a)

definition same_object :: "'a obj \<Rightarrow> 'a obj \<Rightarrow> bool" where
  "same_object a b = (obj_ref a = obj_ref b)"

text \<open>
  \<^verbatim>\<open>x || d\<close> on an optional string: \<^verbatim>\<open>undefined\<close> and the empty string are falsy.
\<close>

fun or_default :: "string option \<Rightarrow> string \<Rightarrow> string" where
  "or_default None d = d"
| "or_default (Some s) d = (if s = [] then d else s)"

text \<open>\<^verbatim>\<open>xs.filter(Boolean)\<close> on a list of objects and \<^verbatim>\<open>null\<close>s drops the \<^verbatim>\<open>null\<close>s.\<close>

fun filter_Boolean :: "'a option list \<Rightarrow> 'a list" where
  "filter_Boolean [] = []"
| "filter_Boolean (None # xs) = filter_Boolean xs"
| "filter_Boolean (Some x # xs) = x # filter_Boolean xs"

subsection \<open>The mapping of one vendor product\<close>

text \<open>
  Lines 273-275:
  \<^verbatim>\<open>[...new Set(product.variants.map(v =>
       v.options.find(o => o.id === 'size')?.value || 'One Size'))]\<close>
\<close>

definition findSizeOption :: "variant \<Rightarrow> option_entry option" where
  "findSizeOption v = find (\<lambda>opt. option_id opt = ''size'') (options v)"

definition sizeValue :: "variant \<Rightarrow> string option" where
  "sizeValue v = map_option option_value (findSizeOption v)"

definition variantSize :: "variant \<Rightarrow> string" where
  "variantSize v = or_default (sizeValue v) ''One Size''"

definition uniqueSizes :: "variant list \<Rightarrow> string list" where
  "uniqueSizes vs = new_Set (=) (map variantSize vs)"

text \<open>
  Lines 277-283: the callback returns a new object literal for a variant with a color
  option and \<^verbatim>\<open>null\<close> otherwise. \<open>colorEntries n\<close> is the \<^verbatim>\<open>map\<close> call when \<open>n\<close> is
  the next free reference; every object literal it evaluates takes the next one.
\<close>

definition findColorOption :: "variant \<Rightarrow> option_entry option" where
  "findColorOption v = find (\<lambda>opt. option_id opt = ''color'') (options v)"

fun colorEntries :: "nat \<Rightarrow> variant list \<Rightarrow> Color obj option list" where
  "colorEntries n [] = []"
| "colorEntries n (v # vs) =
     (case findColorOption v of
        Some colorOption \<Rightarrow>
          Some (Obj n \<lparr>color_name = option_value colorOption,
                        color_value = toLowerCase (option_value colorOption)\<rparr>)
            # colorEntries (Suc n) vs
      | None \<Rightarrow> None # colorEntries n vs)"

text \<open>
  The objects of the resulting array are serialised by \<^verbatim>\<open>JSON.stringify\<close>, which
  writes their fields; the references are dropped there.
\<close>

definition uniqueColors :: "variant list \<Rightarrow> Color list" where
  "uniqueColors vs = map obj_fields (new_Set same_object (filter_Boolean (colorEntries 0 vs)))"

text \<open>
  Errors are values. \<^verbatim>\<open>Error\<close> carries the message the code gives it; the message of a
  \<^verbatim>\<open>TypeError\<close> raised by the engine on a property read of \<^verbatim>\<open>undefined\<close> names
  the property read, between single quotes (character 0x27).
\<close>

datatype js_error = Error string | TypeError string | SyntaxError string

fun message :: "js_error \<Rightarrow> string" where
  "message (Error m) = m"
| "message (TypeError m) = m"
| "message (SyntaxError m) = m"

definition reading_undefined :: "string \<Rightarrow> js_error" where
  "reading_undefined prop =
     TypeError (''Cannot read properties of undefined (reading '' @ [CHR 0x27] @ prop @
       [CHR 0x27] @ '')'')"

text \<open>\<^verbatim>\<open>xs[0]\<close> is \<^verbatim>\<open>undefined\<close> on an empty array; it does not throw by itself.\<close>

fun first :: "'a list \<Rightarrow> 'a option" where
  "first [] = None"
| "first (x # xs) = Some x"

text \<open>\<^verbatim>\<open>v.files[0].preview_url\<close>: the property read throws when \<^verbatim>\<open>v.files\<close> is empty.\<close>

definition firstPreview :: "variant \<Rightarrow> js_error + string" where
  "firstPreview v =
     (case first (files v) of
        None \<Rightarrow> Inl (reading_undefined ''preview_url'')
      | Some f \<Rightarrow> Inr (preview_url f))"

text \<open>\<^verbatim>\<open>xs.map(f)\<close> with a callback that may throw: the first throw ends the call.\<close>

fun array_map :: "('a \<Rightarrow> js_error + 'b) \<Rightarrow> 'a list \<Rightarrow> js_error + 'b list" where
  "array_map f [] = Inr []"
| "array_map f (x # xs) =
     (case f x of
        Inl e \<Rightarrow> Inl e
      | Inr y \<Rightarrow> (case array_map f xs of Inl e \<Rightarrow> Inl e | Inr ys \<Rightarrow> Inr (y # ys)))"

text \<open>
  Lines 271-300, the callback of \<^verbatim>\<open>products.map\<close>. The fields of the object literal
  are evaluated in the order they are written: \<^verbatim>\<open>mainVariant.retail_price\<close> throws when
  the product has no variant, then \<^verbatim>\<open>mainVariant.files[0].preview_url\<close>, then the
  \<^verbatim>\<open>imageUrls\<close> map.
\<close>

definition formatProduct :: "(string \<Rightarrow> 'n) \<Rightarrow> PrintfulProduct \<Rightarrow> js_error + 'n FormattedProduct" where
  "formatProduct parseFloat product =
     (let mainVariant = first (variants product);
          uniqueSizes = uniqueSizes (variants product);
          uniqueColors = uniqueColors (variants product)
      in case mainVariant of
           None \<Rightarrow> Inl (reading_undefined ''retail_price'')
         | Some mv \<Rightarrow>
            (case firstPreview mv of
               Inl e \<Rightarrow> Inl e
             | Inr url \<Rightarrow>
                (case array_map firstPreview (variants product) of
                   Inl e \<Rightarrow> Inl e
                 | Inr urls \<Rightarrow>
                     Inr \<lparr>product_id = printful_id product,
                          product_name = printful_name product,
                          price = parseFloat (retail_price mv),
                          description = printful_name product,
                          imageUrl = url,
                          imageUrls = urls,
                          category = ''t-shirts'',
                          tags = [''printful''],
                          sizes = uniqueSizes,
                          colors = uniqueColors,
                          inStock = True,
                          isNew = False,
                          isLimited = False\<rparr>)))"


subsection \<open>The request handler\<close>

text \<open>
  The handler reads the request's method and the environment, and calls the vendor at
  most once. The vendor is a function from the outbound call to what \<^verbatim>\<open>fetch\<close> settles
  to; the handler returns its response together with the outbound calls it made, in
  order. The payload \<^verbatim>\<open>data.result\<close> is taken at its declared type
  \<^verbatim>\<open>PrintfulProduct[]\<close>. \<^verbatim>\<open>console.error\<close> only logs and is left out.
\<close>

record request =
  req_method :: string

record env =
  PRINTFUL_API_KEY :: "string option"

record outbound_call =
  url :: string
  authorization :: string

record vendor_response =
  ok :: bool
  statusText :: string
  json :: "js_error + PrintfulProduct list"

datatype fetch_outcome = Rejected js_error | Fulfilled vendor_response

datatype 'n body = NoBody | ProductsJson "'n FormattedProduct list" | ErrorJson string

record 'n response =
  status :: nat
  headers :: "(string \<times> string) list"
  body :: "'n body"

definition corsHeaders :: "(string \<times> string) list" where
  "corsHeaders =
     [(''Access-Control-Allow-Origin'', ''*''),
      (''Access-Control-Allow-Methods'', ''GET, OPTIONS''),
      (''Access-Control-Allow-Headers'', ''Content-Type, Authorization'')]"

text \<open>
  Lines 252-310, the body of \<^verbatim>\<open>try\<close>: \<open>Inl\<close> is what it throws. The test
  \<^verbatim>\<open>!printfulApiKey\<close> holds for \<^verbatim>\<open>undefined\<close> and for the empty string. \<^verbatim>\<open>fetch\<close> and
  \<^verbatim>\<open>response.json()\<close> may reject; the error they reject with is part of the vendor's
  outcome.
\<close>

definition try_block ::
  "(string \<Rightarrow> 'n) \<Rightarrow> env \<Rightarrow> (outbound_call \<Rightarrow> fetch_outcome)
     \<Rightarrow> (js_error + 'n response) \<times> outbound_call list" where
  "try_block parseFloat e vendor =
     (case PRINTFUL_API_KEY e of
        None \<Rightarrow> (Inl (Error ''Printful API key not configured''), [])
      | Some printfulApiKey \<Rightarrow>
          if printfulApiKey = [] then (Inl (Error ''Printful API key not configured''), [])
          else
            let call = \<lparr>url = ''https://api.printful.com/store/products'',
                        authorization = ''Bearer '' @ printfulApiKey\<rparr>
            in case vendor call of
                 Rejected err \<Rightarrow> (Inl err, [call])
               | Fulfilled response \<Rightarrow>
                   if \<not> ok response
                   then (Inl (Error (''Printful API error: '' @ statusText response)), [call])
                   else
                     (case json response of
                        Inl err \<Rightarrow> (Inl err, [call])
                      | Inr products \<Rightarrow>
                         (case array_map (formatProduct parseFloat) products of
                            Inl err \<Rightarrow> (Inl err, [call])
                          | Inr formattedProducts \<Rightarrow>
                              (Inr \<lparr>status = 200,
                                    headers =
                                      (''Content-Type'', ''application/json'') # corsHeaders,
                                    body = ProductsJson formattedProducts\<rparr>,
                               [call]))))"

text \<open>
  Lines 246-325. A \<^verbatim>\<open>Response\<close> built without a status has status 200.
\<close>

definition serve ::
  "(string \<Rightarrow> 'n) \<Rightarrow> env \<Rightarrow> (outbound_call \<Rightarrow> fetch_outcome) \<Rightarrow> request
     \<Rightarrow> 'n response \<times> outbound_call list" where
  "serve parseFloat e vendor req =
     (if req_method req = ''OPTIONS''
      then (\<lparr>status = 200, headers = corsHeaders, body = NoBody\<rparr>, [])
      else
        (case try_block parseFloat e vendor of
           (Inr resp, calls) \<Rightarrow> (resp, calls)
         | (Inl error, calls) \<Rightarrow>
             (\<lparr>status = 500,
               headers = (''Content-Type'', ''application/json'') # corsHeaders,
               body = ErrorJson (message error)\<rparr>,
              calls)))"

section \<open>Filter/Sort Pipeline\<close>

text \<open>
  Modelled from the spec: the type \<^verbatim>\<open>Product\<close> that the page imports from
  \<^verbatim>\<open>../types\<close> is not among the sources. Section 3 of the specification gives it the
  fields of \<^verbatim>\<open>FormattedProduct\<close>, the shape the Normalizer serialises for the page, with
  a numeric price. The page decodes the list from JSON, which has no NaN; the
  comparisons of such a number with 50, 100 and 150, and the sign of the difference of
  two of them, are those of the real numbers.
\<close>

type_synonym Product = "real FormattedProduct"

text \<open>
  The state \<^verbatim>\<open>activeFilters\<close> (lines 24-32). Its field \<^verbatim>\<open>sizes\<close> would clash with the
  product field of the same name, so the three fields carry the prefix \<open>active\<close>.
\<close>

record activeFilters =
  active_categories :: "string list"
  active_prices :: "string list"
  active_sizes :: "string list"

text \<open>\<^verbatim>\<open>xs.includes(x)\<close> on strings.\<close>

definition array_includes :: "'a list \<Rightarrow> 'a \<Rightarrow> bool" where
  "array_includes xs x = list_ex (\<lambda>y. y = x) xs"

text \<open>Lines 66-68, 72-78 and 82-84: the three callbacks given to \<^verbatim>\<open>filter\<close>.\<close>

definition categoryPredicate :: "string list \<Rightarrow> Product \<Rightarrow> bool" where
  "categoryPredicate categories product = array_includes categories (category product)"

definition pricePredicate :: "string list \<Rightarrow> Product \<Rightarrow> bool" where
  "pricePredicate prices product =
     (if array_includes prices ''under-50'' \<and> price product < 50 then True
      else if array_includes prices ''50-100'' \<and> price product \<ge> 50 \<and> price product \<le> 100
        then True
      else if array_includes prices ''100-150'' \<and> price product > 100 \<and> price product \<le> 150
        then True
      else if array_includes prices ''over-150'' \<and> price product > 150 then True
      else False)"

definition sizePredicate :: "string list \<Rightarrow> Product \<Rightarrow> bool" where
  "sizePredicate chosen product = list_ex (\<lambda>sz. array_includes chosen sz) (sizes product)"

text \<open>Lines 63-85 on the contents of the arrays.\<close>

definition applyFilters :: "activeFilters \<Rightarrow> Product list \<Rightarrow> Product list" where
  "applyFilters f products =
     (let result = products;
          result = (if length (active_categories f) > 0
                    then filter (categoryPredicate (active_categories f)) result else result);
          result = (if length (active_prices f) > 0
                    then filter (pricePredicate (active_prices f)) result else result);
          result = (if length (active_sizes f) > 0
                    then filter (sizePredicate (active_sizes f)) result else result)
      in result)"

text \<open>
  \<^verbatim>\<open>Array.prototype.sort(cmp)\<close> is a built-in. ECMAScript requires it to be stable and,
  for a comparator that is a consistent ordering, to return the elements in that order;
  which algorithm runs is left to the engine. The result is then the one of any stable
  sort, here insertion: \<open>x\<close> goes before \<open>y\<close> when \<open>cmp x y\<close> is negative, after it when
  positive, and elements that compare as 0 keep the order they had.
\<close>

fun insert_sorted :: "('a \<Rightarrow> 'a \<Rightarrow> real) \<Rightarrow> 'a \<Rightarrow> 'a list \<Rightarrow> 'a list" where
  "insert_sorted cmp x [] = [x]"
| "insert_sorted cmp x (y # ys) =
     (if cmp x y \<le> 0 then x # y # ys else y # insert_sorted cmp x ys)"

fun array_sort :: "('a \<Rightarrow> 'a \<Rightarrow> real) \<Rightarrow> 'a list \<Rightarrow> 'a list" where
  "array_sort cmp [] = []"
| "array_sort cmp (x # xs) = insert_sorted cmp x (array_sort cmp xs)"

text \<open>Lines 87-99, the \<^verbatim>\<open>switch\<close> on \<^verbatim>\<open>sortBy\<close>, on the contents of the array.\<close>

definition applySort :: "string \<Rightarrow> Product list \<Rightarrow> Product list" where
  "applySort sortBy result =
     (if sortBy = ''price-low'' then array_sort (\<lambda>a b. price a - price b) result
      else if sortBy = ''price-high'' then array_sort (\<lambda>a b. price b - price a) result
      else if sortBy = ''newest''
        then array_sort (\<lambda>a b. if isNew a = isNew b then 0 else if isNew a then - 1 else 1) result
      else result)"

definition filterSort :: "Product list \<Rightarrow> activeFilters \<Rightarrow> string \<Rightarrow> Product list" where
  "filterSort products f sortBy = applySort sortBy (applyFilters f products)"

subsection \<open>The same effect on a store of arrays\<close>

text \<open>
  \<^verbatim>\<open>sort\<close> works in place, so whether the effect leaves \<^verbatim>\<open>products\<close> alone depends on
  which array \<^verbatim>\<open>result\<close> refers to. The store is the list of the arrays allocated so far
  and an address is an index into it; \<^verbatim>\<open>[...xs]\<close> and \<^verbatim>\<open>xs.filter(p)\<close> allocate a new
  array, \<^verbatim>\<open>xs.sort(cmp)\<close> overwrites the array it is called on. The effect returns the
  store and the address it hands to \<^verbatim>\<open>setFilteredProducts\<close>.
\<close>

type_synonym addr = nat
type_synonym store = "Product list list"

definition spread :: "store \<Rightarrow> addr \<Rightarrow> store \<times> addr" where
  "spread h a = (h @ [h ! a], length h)"

definition array_filter :: "(Product \<Rightarrow> bool) \<Rightarrow> store \<Rightarrow> addr \<Rightarrow> store \<times> addr" where
  "array_filter p h a = (h @ [filter p (h ! a)], length h)"

definition sort_in_place :: "string \<Rightarrow> store \<Rightarrow> addr \<Rightarrow> store" where
  "sort_in_place sortBy h a = h[a := applySort sortBy (h ! a)]"

definition filterSortEffect :: "store \<Rightarrow> addr \<Rightarrow> activeFilters \<Rightarrow> string \<Rightarrow> store \<times> addr" where
  "filterSortEffect h products f sortBy =
     (let (h, result) = spread h products;
          (h, result) = (if length (active_categories f) > 0
                         then array_filter (categoryPredicate (active_categories f)) h result
                         else (h, result));
          (h, result) = (if length (active_prices f) > 0
                         then array_filter (pricePredicate (active_prices f)) h result
                         else (h, result));
          (h, result) = (if length (active_sizes f) > 0
                         then array_filter (sizePredicate (active_sizes f)) h result
                         else (h, result));
          h = sort_in_place sortBy h result
      in (h, result))"

section \<open>Example inputs\<close>

text \<open>
  Concrete inputs at which the theorems below are instantiated. \<^verbatim>\<open>parseFloat\<close> is a
  parameter of the mapping; the instance here reads the two price texts the examples use.
\<close>

definition parseFloat_example :: "string \<Rightarrow> real" where
  "parseFloat_example s = (if s = ''20.00'' then 20 else if s = ''80.00'' then 80 else 0)"

definition example_variant :: "string \<Rightarrow> option_entry list \<Rightarrow> string list \<Rightarrow> variant" where
  "example_variant i opts urls =
     \<lparr>variant_id = i, retail_price = ''20.00'',
      files = map (\<lambda>u. \<lparr>preview_url = u\<rparr>) urls, options = opts\<rparr>"

definition red_medium :: "option_entry list" where
  "red_medium = [\<lparr>option_id = ''size'', option_value = ''M''\<rparr>,
                 \<lparr>option_id = ''color'', option_value = ''Red''\<rparr>]"

definition two_red :: PrintfulProduct where
  "two_red =
     \<lparr>printful_id = ''7'', printful_name = ''Tee'',
      variants = [example_variant ''1'' red_medium [''front-1'', ''back-1''],
                  example_variant ''2'' red_medium [''front-2'']]\<rparr>"

definition no_variants :: PrintfulProduct where
  "no_variants = \<lparr>printful_id = ''8'', printful_name = ''Mug'', variants = []\<rparr>"

definition empty_size :: variant where
  "empty_size = example_variant ''3'' [\<lparr>option_id = ''size'', option_value = []\<rparr>] [''front-3'']"

definition no_options :: variant where
  "no_options = example_variant ''4'' [] [''front-4'']"

definition vendor_returning :: "PrintfulProduct list \<Rightarrow> outbound_call \<Rightarrow> fetch_outcome" where
  "vendor_returning ps call = Fulfilled \<lparr>ok = True, statusText = ''OK'', json = Inr ps\<rparr>"

definition example_product :: "string \<Rightarrow> real \<Rightarrow> bool \<Rightarrow> Product" where
  "example_product i p new =
     \<lparr>product_id = i, product_name = i, price = p, description = i, imageUrl = ''u'',
      imageUrls = [''u''], category = ''t-shirts'', tags = [''printful''], sizes = [''M''],
      colors = [], inStock = True, isNew = new, isLimited = False\<rparr>"

section \<open>Properties of the Catalog Normalizer\<close>

subsection \<open>Sets of strings and of objects\<close>

lemma set_foldl_set_add: "set (foldl (set_add (=)) acc xs) = set acc \<union> set xs"
  by (induction xs arbitrary: acc) (auto simp: set_add_def list_ex_iff)

lemma distinct_foldl_set_add:
  "distinct acc \<Longrightarrow> distinct (foldl (set_add (=)) acc xs)"
  by (induction xs arbitrary: acc) (auto simp: set_add_def list_ex_iff)

lemma set_uniqueSizes: "set (uniqueSizes vs) = variantSize ` set vs"
  by (simp add: uniqueSizes_def new_Set_def set_foldl_set_add)

lemma distinct_uniqueSizes: "distinct (uniqueSizes vs)"
  by (simp add: uniqueSizes_def new_Set_def distinct_foldl_set_add)

lemma variantSize_cases:
  "variantSize v =
     (if sizeValue v = None \<or> sizeValue v = Some [] then ''One Size'' else the (sizeValue v))"
  by (cases "sizeValue v") (simp_all add: variantSize_def)

lemma count_list_distinct: "distinct xs \<Longrightarrow> x \<in> set xs \<Longrightarrow> count_list xs x = 1"
  by (induction xs) (auto simp: count_list_0_iff)

text \<open>
  A set of objects whose references are pairwise different keeps all of them: no two
  are the same value.
\<close>

lemma foldl_set_add_fresh:
  "distinct (map obj_ref (acc @ xs)) \<Longrightarrow> foldl (set_add same_object) acc xs = acc @ xs"
proof (induction xs arbitrary: acc)
  case Nil
  then show ?case by simp
next
  case (Cons x xs)
  have "\<not> list_ex (same_object x) acc"
    using Cons.prems by (auto simp: list_ex_iff same_object_def)
  then have "set_add same_object acc x = acc @ [x]"
    by (simp add: set_add_def)
  moreover have "distinct (map obj_ref ((acc @ [x]) @ xs))"
    using Cons.prems by simp
  ultimately show ?case
    using Cons.IH [of "acc @ [x]"] by simp
qed

lemma fields_colorEntries:
  "map obj_fields (filter_Boolean (colorEntries n vs)) =
   map (\<lambda>opt. \<lparr>color_name = option_value opt, color_value = toLowerCase (option_value opt)\<rparr>)
     (List.map_filter findColorOption vs)"
  by (induction vs arbitrary: n) (auto split: option.splits)

lemma refs_colorEntries:
  "map obj_ref (filter_Boolean (colorEntries n vs)) =
   [n ..< n + length (List.map_filter findColorOption vs)]"
proof (induction vs arbitrary: n)
  case Nil
  then show ?case by simp
next
  case (Cons v vs)
  show ?case
  proof (cases "findColorOption v")
    case None
    then show ?thesis using Cons.IH [of n] by simp
  next
    case (Some c)
    then show ?thesis using Cons.IH [of "Suc n"] by (simp add: upt_rec)
  qed
qed

text \<open>
  Hence \<open>uniqueColors\<close> has one entry for every variant with a color option, in the
  order of the variants, and none for the others.
\<close>

lemma uniqueColors_eq:
  "uniqueColors vs =
   map (\<lambda>opt. \<lparr>color_name = option_value opt, color_value = toLowerCase (option_value opt)\<rparr>)
     (List.map_filter findColorOption vs)"
proof -
  have "distinct (map obj_ref ([] @ filter_Boolean (colorEntries 0 vs)))"
    by (simp add: refs_colorEntries)
  then have "new_Set same_object (filter_Boolean (colorEntries 0 vs)) =
      filter_Boolean (colorEntries 0 vs)"
    unfolding new_Set_def using foldl_set_add_fresh [of "[]"] by fastforce
  then show ?thesis
    by (simp add: uniqueColors_def fields_colorEntries)
qed

subsection \<open>Mapping with a callback that may throw\<close>

lemma array_map_Inr_iff:
  "(\<exists>ys. array_map f xs = Inr ys) \<longleftrightarrow> (\<forall>x \<in> set xs. \<exists>y. f x = Inr y)"
  by (induction xs) (auto split: sum.splits)

lemma array_map_length: "array_map f xs = Inr ys \<Longrightarrow> length ys = length xs"
  by (induction xs arbitrary: ys) (auto split: sum.splits)

lemma array_map_nth:
  "array_map f xs = Inr ys \<Longrightarrow> i < length xs \<Longrightarrow> f (xs ! i) = Inr (ys ! i)"
proof (induction xs arbitrary: ys i)
  case Nil
  then show ?case by simp
next
  case (Cons x xs)
  then show ?case
    by (cases i) (auto split: sum.splits)
qed

lemma firstPreview_Inr:
  "firstPreview v = Inr u \<longleftrightarrow> (\<exists>f fs. files v = f # fs \<and> u = preview_url f)"
  by (cases "files v") (auto simp: firstPreview_def)

lemma firstPreview_defined: "(\<exists>u. firstPreview v = Inr u) \<longleftrightarrow> files v \<noteq> []"
  by (cases "files v") (auto simp: firstPreview_def)

lemma formatProduct_Inr_iff:
  "(\<exists>fp. formatProduct pf p = Inr fp) \<longleftrightarrow>
     variants p \<noteq> [] \<and> (\<forall>v \<in> set (variants p). files v \<noteq> [])"
proof (cases "variants p")
  case Nil
  then show ?thesis by (simp add: formatProduct_def)
next
  case (Cons mv rest)
  have "(\<exists>urls. array_map firstPreview (variants p) = Inr urls) \<longleftrightarrow>
          (\<forall>v \<in> set (variants p). files v \<noteq> [])"
    by (simp add: array_map_Inr_iff firstPreview_defined)
  moreover have "(\<exists>u. firstPreview mv = Inr u) \<longleftrightarrow> files mv \<noteq> []"
    by (rule firstPreview_defined)
  ultimately show ?thesis
    using Cons by (auto simp: formatProduct_def Let_def split: sum.splits)
qed

lemma formatProduct_images:
  assumes "formatProduct pf p = Inr fp"
  shows "\<exists>mv rest. variants p = mv # rest \<and> firstPreview mv = Inr (imageUrl fp) \<and>
           array_map firstPreview (variants p) = Inr (imageUrls fp)"
  using assms
  by (cases "variants p") (auto simp: formatProduct_def Let_def split: sum.splits)

lemma formatProduct_two_red:
  "formatProduct parseFloat_example two_red =
     Inr \<lparr>product_id = ''7'', product_name = ''Tee'', price = 20, description = ''Tee'',
          imageUrl = ''front-1'', imageUrls = [''front-1'', ''front-2''],
          category = ''t-shirts'', tags = [''printful''], sizes = [''M''],
          colors = [\<lparr>color_name = ''Red'', color_value = ''red''\<rparr>,
                    \<lparr>color_name = ''Red'', color_value = ''red''\<rparr>],
          inStock = True, isNew = False, isLimited = False\<rparr>"
  by (simp add: formatProduct_def two_red_def example_variant_def red_medium_def
      parseFloat_example_def firstPreview_def uniqueSizes_def variantSize_def sizeValue_def
      findSizeOption_def new_Set_def set_add_def uniqueColors_def findColorOption_def
      same_object_def toLowerCase_def lower_char_def)

subsection \<open>Colors\<close>

text \<open>
  Claim C1 says that \<^verbatim>\<open>colors\<close> holds the distinct color names of the variants, each
  paired with its lowercased value, and nothing for a variant without a color option.
  The code builds a \<^verbatim>\<open>Set\<close> of freshly allocated objects, and no two of those are the
  same value: by \<open>uniqueColors_eq\<close> every variant with a color option contributes its
  own entry. For the product \<open>two_red\<close>, whose two variants are both \<^verbatim>\<open>Red\<close>, the
  mapped product lists the color twice.
\<close>

theorem colors_keep_duplicates:
  "\<exists>fp. formatProduct parseFloat_example two_red = Inr fp \<and>
        map (findColorOption) (variants two_red) =
          [Some \<lparr>option_id = ''color'', option_value = ''Red''\<rparr>,
           Some \<lparr>option_id = ''color'', option_value = ''Red''\<rparr>] \<and>
        colors fp = [\<lparr>color_name = ''Red'', color_value = ''red''\<rparr>,
                     \<lparr>color_name = ''Red'', color_value = ''red''\<rparr>] \<and>
        \<not> distinct (map color_name (colors fp))"
proof -
  have "map findColorOption (variants two_red) =
          [Some \<lparr>option_id = ''color'', option_value = ''Red''\<rparr>,
           Some \<lparr>option_id = ''color'', option_value = ''Red''\<rparr>]"
    by (simp add: two_red_def example_variant_def red_medium_def findColorOption_def)
  then show ?thesis
    by (simp add: formatProduct_two_red)
qed

subsection \<open>Sizes\<close>

text \<open>
  Claim C8 says that \<^verbatim>\<open>sizes\<close> is the set of the distinct values of the size option
  over the variants, with \<^verbatim>\<open>One Size\<close> put in for every variant that has no size
  option. As stated this fails for a variant whose size option has the empty string as
  its value: the value of the option is the empty string, and the code lists
  \<^verbatim>\<open>One Size\<close> instead, although every variant has a size option.
\<close>

theorem empty_size_value_counterexample:
  "sizeValue empty_size = Some [] \<and> uniqueSizes [empty_size] = [''One Size'']"
  by (simp add: empty_size_def example_variant_def uniqueSizes_def variantSize_def
      sizeValue_def findSizeOption_def new_Set_def set_add_def)

text \<open>
  Claim C8 as amended: \<^verbatim>\<open>sizes\<close> has no duplicates; it holds the non-empty values of
  the (first) size option of the variants, and \<^verbatim>\<open>One Size\<close> when some variant has no
  size option or has one whose value is the empty string. In particular, when a variant
  has no size option, \<^verbatim>\<open>One Size\<close> occurs exactly once.
\<close>

theorem uniqueSizes_values:
  "distinct (uniqueSizes vs) \<and>
   set (uniqueSizes vs) =
     {s. s \<noteq> [] \<and> (\<exists>v \<in> set vs. sizeValue v = Some s)} \<union>
     {s. s = ''One Size'' \<and> (\<exists>v \<in> set vs. sizeValue v = None \<or> sizeValue v = Some [])} \<and>
   ((\<exists>v \<in> set vs. sizeValue v = None) \<longrightarrow> count_list (uniqueSizes vs) ''One Size'' = 1)"
proof (intro conjI impI)
  show d: "distinct (uniqueSizes vs)"
    by (rule distinct_uniqueSizes)
  show s: "set (uniqueSizes vs) =
     {s. s \<noteq> [] \<and> (\<exists>v \<in> set vs. sizeValue v = Some s)} \<union>
     {s. s = ''One Size'' \<and> (\<exists>v \<in> set vs. sizeValue v = None \<or> sizeValue v = Some [])}"
    unfolding set_uniqueSizes
    by (auto simp: variantSize_cases image_iff split: if_splits) force+
  assume "\<exists>v \<in> set vs. sizeValue v = None"
  then have "''One Size'' \<in> set (uniqueSizes vs)"
    unfolding s by blast
  with d show "count_list (uniqueSizes vs) ''One Size'' = 1"
    by (rule count_list_distinct)
qed

theorem uniqueSizes_values_witness:
  "sizeValue no_options = None \<and>
   count_list (uniqueSizes [empty_size, no_options, example_variant ''1'' red_medium []])
     ''One Size'' = 1 \<and>
   distinct (uniqueSizes [empty_size, no_options, example_variant ''1'' red_medium []])"
proof -
  have none: "sizeValue no_options = None"
    by (simp add: no_options_def example_variant_def sizeValue_def findSizeOption_def)
  then have "\<exists>v \<in> set [empty_size, no_options, example_variant ''1'' red_medium []].
      sizeValue v = None"
    by simp
  then show ?thesis
    using none uniqueSizes_values [of "[empty_size, no_options, example_variant ''1'' red_medium []]"]
    by blast
qed

text \<open>
  Claim C10: a variant whose size option is present with the empty string as its value
  contributes \<^verbatim>\<open>One Size\<close>, not the empty string; the empty string is never a member of
  \<^verbatim>\<open>sizes\<close>.
\<close>

theorem empty_size_gives_sentinel:
  "findSizeOption v = Some opt \<Longrightarrow> option_value opt = [] \<Longrightarrow> v \<in> set vs \<Longrightarrow>
   variantSize v = ''One Size'' \<and> ''One Size'' \<in> set (uniqueSizes vs) \<and>
   [] \<notin> set (uniqueSizes vs)"
  by (auto simp: set_uniqueSizes variantSize_cases sizeValue_def image_iff split: if_splits)

theorem empty_size_gives_sentinel_witness:
  "findSizeOption empty_size = Some \<lparr>option_id = ''size'', option_value = []\<rparr> \<and>
   variantSize empty_size = ''One Size'' \<and>
   ''One Size'' \<in> set (uniqueSizes [no_options, empty_size]) \<and>
   [] \<notin> set (uniqueSizes [no_options, empty_size])"
proof -
  have opt: "findSizeOption empty_size = Some \<lparr>option_id = ''size'', option_value = []\<rparr>"
    by (simp add: empty_size_def example_variant_def findSizeOption_def)
  show ?thesis
    using opt empty_size_gives_sentinel [OF opt, of "[no_options, empty_size]"] by simp
qed

subsection \<open>Images\<close>

text \<open>
  Claim C7: for a vendor product with at least one variant, the mapped product's
  \<^verbatim>\<open>imageUrls\<close> has as many entries as the product has variants, its i-th entry is the
  URL of the first preview file of the i-th variant, and \<^verbatim>\<open>imageUrl\<close> is the URL of the
  first preview file of the first variant. The mapping yields a product exactly when
  every variant has a preview file.
\<close>

theorem imageUrls_per_variant:
  assumes "variants p \<noteq> []"
  shows "(formatProduct pf p = Inr fp \<longrightarrow>
            length (imageUrls fp) = length (variants p) \<and>
            (\<forall>i < length (variants p).
               \<exists>f fs. files (variants p ! i) = f # fs \<and> imageUrls fp ! i = preview_url f) \<and>
            (\<exists>f fs. files (variants p ! 0) = f # fs \<and> imageUrl fp = preview_url f)) \<and>
         ((\<exists>fp'. formatProduct pf p = Inr fp') \<longleftrightarrow> (\<forall>v \<in> set (variants p). files v \<noteq> []))"
proof (intro conjI impI)
  assume mapped: "formatProduct pf p = Inr fp"
  obtain mv rest where vs: "variants p = mv # rest"
    and main: "firstPreview mv = Inr (imageUrl fp)"
    and all: "array_map firstPreview (variants p) = Inr (imageUrls fp)"
    using formatProduct_images [OF mapped] by blast
  show "length (imageUrls fp) = length (variants p)"
    using all by (rule array_map_length)
  show "\<forall>i < length (variants p).
          \<exists>f fs. files (variants p ! i) = f # fs \<and> imageUrls fp ! i = preview_url f"
  proof (intro allI impI)
    fix i
    assume "i < length (variants p)"
    then show "\<exists>f fs. files (variants p ! i) = f # fs \<and> imageUrls fp ! i = preview_url f"
      using array_map_nth [OF all] by (simp add: firstPreview_Inr)
  qed
  show "\<exists>f fs. files (variants p ! 0) = f # fs \<and> imageUrl fp = preview_url f"
    using main vs by (simp add: firstPreview_Inr)
next
  show "(\<exists>fp'. formatProduct pf p = Inr fp') \<longleftrightarrow> (\<forall>v \<in> set (variants p). files v \<noteq> [])"
    using assms by (simp add: formatProduct_Inr_iff)
qed

theorem imageUrls_per_variant_witness:
  "variants two_red \<noteq> [] \<and>
   (\<exists>fp. formatProduct parseFloat_example two_red = Inr fp \<and>
      length (imageUrls fp) = length (variants two_red) \<and>
      imageUrls fp = [''front-1'', ''front-2''] \<and>
      (\<exists>f fs. files (variants two_red ! 0) = f # fs \<and> imageUrl fp = preview_url f))"
proof -
  have ne: "variants two_red \<noteq> []"
    by (simp add: two_red_def)
  obtain fp where fp: "formatProduct parseFloat_example two_red = Inr fp"
    and urls: "imageUrls fp = [''front-1'', ''front-2'']"
    using formatProduct_two_red by simp
  have "length (imageUrls fp) = length (variants two_red) \<and>
        (\<exists>f fs. files (variants two_red ! 0) = f # fs \<and> imageUrl fp = preview_url f)"
    using fp imageUrls_per_variant [OF ne, of parseFloat_example fp] by blast
  then show ?thesis
    using ne fp urls by blast
qed

subsection \<open>The handler\<close>

text \<open>
  A preflight request never reaches the credential check: the handler answers
  \<^verbatim>\<open>OPTIONS\<close> with an empty 200 response and the permissive headers before it reads the
  environment, and calls nobody.
\<close>

lemma preflight_answered_first:
  "serve parseFloat_example \<lparr>PRINTFUL_API_KEY = None\<rparr> (vendor_returning [two_red])
     \<lparr>req_method = ''OPTIONS''\<rparr> =
   (\<lparr>status = 200, headers = corsHeaders, body = NoBody\<rparr>, [])"
  by (simp add: serve_def)

text \<open>
  Claim C4: when the credential is absent from the environment, the Normalizer answers
  the request for the catalog with status 500 and the JSON body
  \<^verbatim>\<open>{error: "Printful API key not configured"}\<close>, and makes no outbound call to the vendor.
  The specification states the rule for an inbound \<^verbatim>\<open>GET\<close> request and answers the
  \<^verbatim>\<open>OPTIONS\<close> preflight separately; the theorem covers \<^verbatim>\<open>GET\<close> and every other method
  that is not \<^verbatim>\<open>OPTIONS\<close>, and shows that no request at all leads to an outbound call.
\<close>

theorem absent_key_gives_500:
  "PRINTFUL_API_KEY e = None \<Longrightarrow>
   snd (serve pf e vendor req) = [] \<and>
   (req_method req \<noteq> ''OPTIONS'' \<longrightarrow>
      status (fst (serve pf e vendor req)) = 500 \<and>
      body (fst (serve pf e vendor req)) = ErrorJson ''Printful API key not configured'')"
  by (simp add: serve_def try_block_def)

theorem absent_key_gives_500_witness:
  "PRINTFUL_API_KEY \<lparr>PRINTFUL_API_KEY = None\<rparr> = None \<and>
   req_method \<lparr>req_method = ''GET''\<rparr> \<noteq> ''OPTIONS'' \<and>
   snd (serve parseFloat_example \<lparr>PRINTFUL_API_KEY = None\<rparr> (vendor_returning [two_red])
          \<lparr>req_method = ''GET''\<rparr>) = [] \<and>
   status (fst (serve parseFloat_example \<lparr>PRINTFUL_API_KEY = None\<rparr> (vendor_returning [two_red])
          \<lparr>req_method = ''GET''\<rparr>)) = 500 \<and>
   body (fst (serve parseFloat_example \<lparr>PRINTFUL_API_KEY = None\<rparr> (vendor_returning [two_red])
          \<lparr>req_method = ''GET''\<rparr>)) = ErrorJson ''Printful API key not configured''"
proof -
  have k: "PRINTFUL_API_KEY \<lparr>PRINTFUL_API_KEY = None\<rparr> = None"
    by simp
  have m: "req_method \<lparr>req_method = ''GET''\<rparr> \<noteq> ''OPTIONS''"
    by simp
  show ?thesis
    using k m
      absent_key_gives_500 [OF k, of parseFloat_example "vendor_returning [two_red]"
        "\<lparr>req_method = ''GET''\<rparr>"]
    by blast
qed

text \<open>
  Claim C9: the mapping of the payload returns exactly when every product has at least
  one variant and every variant at least one preview file. For a request that reached
  the vendor and got a payload, the response is then 200 with one mapped product per
  vendor product; if some product violates the condition, the response is 500 with a
  JSON error body. A shorter array of products is never returned.
\<close>

theorem mapping_all_or_nothing:
  assumes "req_method req \<noteq> ''OPTIONS''"
    and "PRINTFUL_API_KEY e = Some key" and "key \<noteq> []"
    and "vendor \<lparr>url = ''https://api.printful.com/store/products'',
                  authorization = ''Bearer '' @ key\<rparr> = Fulfilled r"
    and "ok r" and "json r = Inr ps"
  shows "((\<exists>fps. array_map (formatProduct pf) ps = Inr fps) \<longleftrightarrow>
            (\<forall>p \<in> set ps. variants p \<noteq> [] \<and> (\<forall>v \<in> set (variants p). files v \<noteq> []))) \<and>
         ((\<forall>p \<in> set ps. variants p \<noteq> [] \<and> (\<forall>v \<in> set (variants p). files v \<noteq> [])) \<longrightarrow>
            status (fst (serve pf e vendor req)) = 200 \<and>
            (\<exists>fps. body (fst (serve pf e vendor req)) = ProductsJson fps \<and>
                   array_map (formatProduct pf) ps = Inr fps \<and> length fps = length ps)) \<and>
         (\<not> (\<forall>p \<in> set ps. variants p \<noteq> [] \<and> (\<forall>v \<in> set (variants p). files v \<noteq> [])) \<longrightarrow>
            status (fst (serve pf e vendor req)) = 500 \<and>
            (\<exists>m. body (fst (serve pf e vendor req)) = ErrorJson m))"
proof -
  let ?wf = "\<forall>p \<in> set ps. variants p \<noteq> [] \<and> (\<forall>v \<in> set (variants p). files v \<noteq> [])"
  let ?call = "\<lparr>url = ''https://api.printful.com/store/products'',
                authorization = ''Bearer '' @ key\<rparr>"
  have total: "(\<exists>fps. array_map (formatProduct pf) ps = Inr fps) \<longleftrightarrow> ?wf"
    unfolding array_map_Inr_iff formatProduct_Inr_iff ..
  have run: "serve pf e vendor req =
      (case array_map (formatProduct pf) ps of
         Inl err \<Rightarrow>
           (\<lparr>status = 500, headers = (''Content-Type'', ''application/json'') # corsHeaders,
             body = ErrorJson (message err)\<rparr>, [?call])
       | Inr fps \<Rightarrow>
           (\<lparr>status = 200, headers = (''Content-Type'', ''application/json'') # corsHeaders,
             body = ProductsJson fps\<rparr>, [?call]))"
    using assms by (simp add: serve_def try_block_def Let_def split: sum.splits)
  have good: "status (fst (serve pf e vendor req)) = 200 \<and>
            (\<exists>fps. body (fst (serve pf e vendor req)) = ProductsJson fps \<and>
                   array_map (formatProduct pf) ps = Inr fps \<and> length fps = length ps)"
    if wf: ?wf
  proof -
    obtain fps where "array_map (formatProduct pf) ps = Inr fps"
      using total wf by blast
    then show ?thesis
      by (simp add: run array_map_length)
  qed
  have bad: "status (fst (serve pf e vendor req)) = 500 \<and>
            (\<exists>m. body (fst (serve pf e vendor req)) = ErrorJson m)"
    if nwf: "\<not> ?wf"
  proof -
    obtain err where "array_map (formatProduct pf) ps = Inl err"
      using total nwf by (cases "array_map (formatProduct pf) ps") auto
    then show ?thesis
      by (simp add: run)
  qed
  show ?thesis
    using total good bad by blast
qed

theorem mapping_all_or_nothing_witness:
  "status (fst (serve parseFloat_example \<lparr>PRINTFUL_API_KEY = Some ''secret''\<rparr>
            (vendor_returning [two_red, no_variants]) \<lparr>req_method = ''GET''\<rparr>)) = 500 \<and>
   (\<exists>m. body (fst (serve parseFloat_example \<lparr>PRINTFUL_API_KEY = Some ''secret''\<rparr>
            (vendor_returning [two_red, no_variants]) \<lparr>req_method = ''GET''\<rparr>)) = ErrorJson m) \<and>
   status (fst (serve parseFloat_example \<lparr>PRINTFUL_API_KEY = Some ''secret''\<rparr>
            (vendor_returning [two_red]) \<lparr>req_method = ''GET''\<rparr>)) = 200 \<and>
   (\<exists>fps. body (fst (serve parseFloat_example \<lparr>PRINTFUL_API_KEY = Some ''secret''\<rparr>
            (vendor_returning [two_red]) \<lparr>req_method = ''GET''\<rparr>)) = ProductsJson fps \<and>
      length fps = 1)"
proof -
  let ?e = "\<lparr>PRINTFUL_API_KEY = Some ''secret''\<rparr>"
  let ?req = "\<lparr>req_method = ''GET''\<rparr>"
  have bad: "\<not> (\<forall>p \<in> set [two_red, no_variants].
      variants p \<noteq> [] \<and> (\<forall>v \<in> set (variants p). files v \<noteq> []))"
    by (simp add: no_variants_def)
  have good: "\<forall>p \<in> set [two_red]. variants p \<noteq> [] \<and> (\<forall>v \<in> set (variants p). files v \<noteq> [])"
    by (simp add: two_red_def example_variant_def)
  have "status (fst (serve parseFloat_example ?e (vendor_returning [two_red, no_variants]) ?req))
          = 500 \<and>
        (\<exists>m. body (fst (serve parseFloat_example ?e (vendor_returning [two_red, no_variants])
           ?req)) = ErrorJson m)"
    using bad
      mapping_all_or_nothing [where req = ?req and e = ?e and key = "''secret''"
        and vendor = "vendor_returning [two_red, no_variants]"
        and r = "\<lparr>ok = True, statusText = ''OK'', json = Inr [two_red, no_variants]\<rparr>"
        and ps = "[two_red, no_variants]" and pf = parseFloat_example]
    by (simp add: vendor_returning_def del: set_simps)
  moreover
  have "status (fst (serve parseFloat_example ?e (vendor_returning [two_red]) ?req)) = 200 \<and>
        (\<exists>fps. body (fst (serve parseFloat_example ?e (vendor_returning [two_red]) ?req)) =
           ProductsJson fps \<and> length fps = 1)"
    using good
      mapping_all_or_nothing [where req = ?req and e = ?e and key = "''secret''"
        and vendor = "vendor_returning [two_red]"
        and r = "\<lparr>ok = True, statusText = ''OK'', json = Inr [two_red]\<rparr>"
        and ps = "[two_red]" and pf = parseFloat_example]
    by (auto simp add: vendor_returning_def simp del: set_simps)
  ultimately show ?thesis
    by blast
qed

section \<open>Properties of the Filter/Sort Pipeline\<close>

subsection \<open>Price bands\<close>

lemma array_includes_iff: "array_includes xs x \<longleftrightarrow> x \<in> set xs"
  by (auto simp: array_includes_def list_ex_iff)

lemma pricePredicate_iff:
  "pricePredicate chosen p \<longleftrightarrow>
     (''under-50'' \<in> set chosen \<and> price p < 50) \<or>
     (''50-100'' \<in> set chosen \<and> 50 \<le> price p \<and> price p \<le> 100) \<or>
     (''100-150'' \<in> set chosen \<and> 100 < price p \<and> price p \<le> 150) \<or>
     (''over-150'' \<in> set chosen \<and> 150 < price p)"
  by (auto simp: pricePredicate_def array_includes_iff)

lemma band_single:
  "pricePredicate [b] p \<longleftrightarrow>
     (b = ''under-50'' \<and> price p < 50) \<or>
     (b = ''50-100'' \<and> 50 \<le> price p \<and> price p \<le> 100) \<or>
     (b = ''100-150'' \<and> 100 < price p \<and> price p \<le> 150) \<or>
     (b = ''over-150'' \<and> 150 < price p)"
  unfolding pricePredicate_iff by auto

lemma any_band: "pricePredicate chosen p \<longleftrightarrow> (\<exists>b \<in> set chosen. pricePredicate [b] p)"
  unfolding band_single unfolding pricePredicate_iff by blast

lemma one_band:
  "\<exists>!b. b \<in> set [''under-50'', ''50-100'', ''100-150'', ''over-150''] \<and> pricePredicate [b] p"
proof -
  consider "price p < 50" | "50 \<le> price p \<and> price p \<le> 100"
    | "100 < price p \<and> price p \<le> 150" | "150 < price p"
    by linarith
  then show ?thesis
  proof cases
    case 1
    then show ?thesis unfolding band_single by (intro ex1I [of _ "''under-50''"]) auto
  next
    case 2
    then show ?thesis unfolding band_single by (intro ex1I [of _ "''50-100''"]) auto
  next
    case 3
    then show ?thesis unfolding band_single by (intro ex1I [of _ "''100-150''"]) auto
  next
    case 4
    then show ?thesis unfolding band_single by (intro ex1I [of _ "''over-150''"]) auto
  qed
qed

text \<open>
  Claim C2: the band \<^verbatim>\<open>under-50\<close> accepts the prices below 50, \<^verbatim>\<open>50-100\<close> those from
  50 to 100 inclusive, \<^verbatim>\<open>100-150\<close> those above 100 up to 150 inclusive, \<^verbatim>\<open>over-150\<close>
  those above 150. Every price is accepted by exactly one of the four bands, and a
  product passes the predicate for a chosen set of bands exactly when one of the chosen
  bands accepts its price. The prices 50 and 100 are accepted by \<^verbatim>\<open>50-100\<close> only, the
  price 150 by \<^verbatim>\<open>100-150\<close> only.
\<close>

theorem price_bands_partition:
  "(pricePredicate [''under-50''] p \<longleftrightarrow> price p < 50) \<and>
   (pricePredicate [''50-100''] p \<longleftrightarrow> 50 \<le> price p \<and> price p \<le> 100) \<and>
   (pricePredicate [''100-150''] p \<longleftrightarrow> 100 < price p \<and> price p \<le> 150) \<and>
   (pricePredicate [''over-150''] p \<longleftrightarrow> 150 < price p) \<and>
   (\<exists>!b. b \<in> set [''under-50'', ''50-100'', ''100-150'', ''over-150''] \<and>
          pricePredicate [b] p) \<and>
   (pricePredicate chosen p \<longleftrightarrow> (\<exists>b \<in> set chosen. pricePredicate [b] p)) \<and>
   filter (\<lambda>b. pricePredicate [b] (p\<lparr>price := 50\<rparr>))
     [''under-50'', ''50-100'', ''100-150'', ''over-150''] = [''50-100''] \<and>
   filter (\<lambda>b. pricePredicate [b] (p\<lparr>price := 100\<rparr>))
     [''under-50'', ''50-100'', ''100-150'', ''over-150''] = [''50-100''] \<and>
   filter (\<lambda>b. pricePredicate [b] (p\<lparr>price := 150\<rparr>))
     [''under-50'', ''50-100'', ''100-150'', ''over-150''] = [''100-150'']"
proof (intro conjI)
  show "\<exists>!b. b \<in> set [''under-50'', ''50-100'', ''100-150'', ''over-150''] \<and>
          pricePredicate [b] p"
    by (rule one_band)
  show "pricePredicate chosen p \<longleftrightarrow> (\<exists>b \<in> set chosen. pricePredicate [b] p)"
    by (rule any_band)
qed (simp_all add: band_single)

theorem price_bands_partition_witness:
  "pricePredicate [''under-50'', ''100-150''] (example_product ''A'' 150 True) \<and>
   pricePredicate [''100-150''] (example_product ''A'' 150 True) \<and>
   \<not> pricePredicate [''over-150''] (example_product ''A'' 150 True) \<and>
   \<not> pricePredicate [''50-100'', ''over-150''] (example_product ''A'' 150 True)"
proof -
  have "price (example_product ''A'' 150 True) = 150"
    by (simp add: example_product_def)
  then show ?thesis
    using price_bands_partition [of "example_product ''A'' 150 True" "[''under-50'', ''100-150'']"]
      price_bands_partition [of "example_product ''A'' 150 True" "[''50-100'', ''over-150'']"]
    by simp
qed

subsection \<open>Sorting\<close>

lemma insert_newest_True:
  "isNew x \<Longrightarrow>
   insert_sorted (\<lambda>a b. if isNew a = isNew b then 0 else if isNew a then - 1 else 1) x ys = x # ys"
  by (cases ys) auto

lemma insert_newest_False:
  "\<not> isNew x \<Longrightarrow> \<forall>a \<in> set news. isNew a \<Longrightarrow> \<forall>b \<in> set olds. \<not> isNew b \<Longrightarrow>
   insert_sorted (\<lambda>a b. if isNew a = isNew b then 0 else if isNew a then - 1 else 1) x
     (news @ olds) = news @ x # olds"
proof (induction news)
  case Nil
  then show ?case by (cases olds) auto
next
  case (Cons y ys)
  then show ?case by simp
qed

lemma array_sort_newest:
  "array_sort (\<lambda>a b. if isNew a = isNew b then 0 else if isNew a then - 1 else 1) xs =
   filter isNew xs @ filter (\<lambda>p. \<not> isNew p) xs"
proof (induction xs)
  case Nil
  then show ?case by simp
next
  case (Cons x xs)
  then show ?case
    by (cases "isNew x") (simp_all add: insert_newest_True insert_newest_False)
qed

text \<open>
  With a difference of keys as comparator the model is the stable insertion sort of the
  library.
\<close>

lemma array_sort_by_difference:
  "array_sort (\<lambda>a b. key a - key b) xs = sort_key key xs"
proof (induction xs)
  case Nil
  then show ?case by simp
next
  case (Cons x xs)
  have "insert_sorted (\<lambda>a b. key a - key b) x ys = insort_key key x ys" for ys
    by (induction ys) auto
  with Cons show ?case by simp
qed

lemma mset_insert_sorted: "mset (insert_sorted cmp x ys) = add_mset x (mset ys)"
  by (induction ys) auto

lemma mset_array_sort: "mset (array_sort cmp xs) = mset xs"
  by (induction xs) (auto simp: mset_insert_sorted)

lemma mset_applySort: "mset (applySort k xs) = mset xs"
  by (simp add: applySort_def mset_array_sort)

text \<open>
  Claim C3: with the key \<^verbatim>\<open>newest\<close> the sort puts the products with \<^verbatim>\<open>isNew\<close> first and
  the others after them, each group in the order the filters left it, whatever the
  prices. For A (new, price 80) and B (not new, price 20) the key \<^verbatim>\<open>newest\<close> gives
  [A, B] and the key \<^verbatim>\<open>price-low\<close> gives [B, A], from either order of the two.
\<close>

theorem newest_is_stable_partition:
  "applySort ''newest'' ps = filter isNew ps @ filter (\<lambda>p. \<not> isNew p) ps \<and>
   filterSort ps f ''newest'' =
     filter isNew (applyFilters f ps) @ filter (\<lambda>p. \<not> isNew p) (applyFilters f ps) \<and>
   (isNew A \<and> price A = 80 \<and> \<not> isNew B \<and> price B = 20 \<longrightarrow>
      applySort ''newest'' [A, B] = [A, B] \<and> applySort ''newest'' [B, A] = [A, B] \<and>
      applySort ''price-low'' [A, B] = [B, A] \<and> applySort ''price-low'' [B, A] = [B, A])"
  by (simp add: applySort_def filterSort_def array_sort_newest)

theorem newest_is_stable_partition_witness:
  "applySort ''newest'' [example_product ''B'' 20 False, example_product ''A'' 80 True] =
     [example_product ''A'' 80 True, example_product ''B'' 20 False] \<and>
   applySort ''price-low'' [example_product ''A'' 80 True, example_product ''B'' 20 False] =
     [example_product ''B'' 20 False, example_product ''A'' 80 True]"
proof -
  have "isNew (example_product ''A'' 80 True) \<and> price (example_product ''A'' 80 True) = 80 \<and>
        \<not> isNew (example_product ''B'' 20 False) \<and> price (example_product ''B'' 20 False) = 20"
    by (simp add: example_product_def)
  then show ?thesis
    using newest_is_stable_partition
      [of "[]" undefined "example_product ''A'' 80 True" "example_product ''B'' 20 False"]
    by blast
qed

subsection \<open>Filtering\<close>

lemma applyFilters_filter:
  "applyFilters f ps =
     filter (\<lambda>p. (active_categories f = [] \<or> categoryPredicate (active_categories f) p) \<and>
                 (active_prices f = [] \<or> pricePredicate (active_prices f) p) \<and>
                 (active_sizes f = [] \<or> sizePredicate (active_sizes f) p)) ps"
proof (cases "active_categories f = []")
  case c: True
  show ?thesis
  proof (cases "active_prices f = []")
    case p: True
    show ?thesis
      by (cases "active_sizes f = []") (simp_all add: applyFilters_def c p)
  next
    case p: False
    show ?thesis
      by (cases "active_sizes f = []") (simp_all add: applyFilters_def c p)
  qed
next
  case c: False
  show ?thesis
  proof (cases "active_prices f = []")
    case p: True
    show ?thesis
      by (cases "active_sizes f = []") (simp_all add: applyFilters_def c p)
  next
    case p: False
    show ?thesis
      by (cases "active_sizes f = []") (simp_all add: applyFilters_def c p conj_assoc)
  qed
qed

lemma mset_filterSort: "mset (filterSort ps f k) \<subseteq># mset ps"
  by (simp add: filterSort_def mset_applySort applyFilters_filter)

text \<open>
  Claim C5: with the three selections empty the filters return the list they were given,
  same products in the same order; a dimension whose selection is empty constrains
  nothing. (The sort that follows reorders the list when the key is one of the three it
  knows; under any other key the pipeline returns the list as it was.)
\<close>

theorem empty_selection_keeps_list:
  "applyFilters \<lparr>active_categories = [], active_prices = [], active_sizes = []\<rparr> ps = ps \<and>
   filterSort ps \<lparr>active_categories = [], active_prices = [], active_sizes = []\<rparr> k =
     applySort k ps \<and>
   (k \<noteq> ''price-low'' \<and> k \<noteq> ''price-high'' \<and> k \<noteq> ''newest'' \<longrightarrow>
      filterSort ps \<lparr>active_categories = [], active_prices = [], active_sizes = []\<rparr> k = ps) \<and>
   applyFilters f ps =
     filter (\<lambda>p. (active_categories f = [] \<or> categoryPredicate (active_categories f) p) \<and>
                 (active_prices f = [] \<or> pricePredicate (active_prices f) p) \<and>
                 (active_sizes f = [] \<or> sizePredicate (active_sizes f) p)) ps"
proof (intro conjI)
  show "applyFilters f ps =
     filter (\<lambda>p. (active_categories f = [] \<or> categoryPredicate (active_categories f) p) \<and>
                 (active_prices f = [] \<or> pricePredicate (active_prices f) p) \<and>
                 (active_sizes f = [] \<or> sizePredicate (active_sizes f) p)) ps"
    by (rule applyFilters_filter)
qed (simp_all add: applyFilters_def filterSort_def applySort_def)

theorem empty_selection_keeps_list_witness:
  "filterSort [example_product ''B'' 20 False, example_product ''A'' 80 True]
     \<lparr>active_categories = [], active_prices = [], active_sizes = []\<rparr> ''featured'' =
   [example_product ''B'' 20 False, example_product ''A'' 80 True] \<and>
   applyFilters \<lparr>active_categories = [], active_prices = [], active_sizes = []\<rparr>
     [example_product ''B'' 20 False, example_product ''A'' 80 True] =
   [example_product ''B'' 20 False, example_product ''A'' 80 True]"
proof -
  have k: "''featured'' \<noteq> ''price-low'' \<and> ''featured'' \<noteq> ''price-high'' \<and>
        ''featured'' \<noteq> ''newest''"
    by simp
  note inst = empty_selection_keeps_list
    [of "[example_product ''B'' 20 False, example_product ''A'' 80 True]" "''featured''"
      "\<lparr>active_categories = [], active_prices = [], active_sizes = []\<rparr>"]
  from inst have
    "applyFilters \<lparr>active_categories = [], active_prices = [], active_sizes = []\<rparr>
       [example_product ''B'' 20 False, example_product ''A'' 80 True] =
     [example_product ''B'' 20 False, example_product ''A'' 80 True]"
    by (rule conjunct1)
  moreover from inst k have
    "filterSort [example_product ''B'' 20 False, example_product ''A'' 80 True]
       \<lparr>active_categories = [], active_prices = [], active_sizes = []\<rparr> ''featured'' =
     [example_product ''B'' 20 False, example_product ''A'' 80 True]"
    by (elim conjE impE) (intro conjI, assumption+)
  ultimately show ?thesis
    by (intro conjI)
qed

subsection \<open>The store\<close>

lemma filterSortEffect_frame:
  assumes "products < length h" and "filterSortEffect h products f sortBy = (h', result)"
  shows "length h \<le> result \<and> result < length h' \<and> (\<forall>a < length h. h' ! a = h ! a) \<and>
         h' ! result = filterSort (h ! products) f sortBy"
  using assms
  by (auto simp: filterSortEffect_def spread_def array_filter_def sort_in_place_def
      filterSort_def applyFilters_def Let_def nth_append split: if_splits)

text \<open>
  Claim C6: the effect leaves the array \<^verbatim>\<open>products\<close> as it was (same elements in the
  same order), as it does every array that existed before it ran; the array it hands to
  \<^verbatim>\<open>setFilteredProducts\<close> is a new one whose contents are a function of the product
  list, the selection and the sort key only, and are drawn from the elements of the
  product list.
\<close>

theorem effect_leaves_products_unmutated:
  assumes "products < length h" and "filterSortEffect h products f sortBy = (h', result)"
  shows "h' ! products = h ! products \<and>
         (\<forall>a < length h. h' ! a = h ! a) \<and>
         result \<noteq> products \<and>
         h' ! result = filterSort (h ! products) f sortBy \<and>
         mset (h' ! result) \<subseteq># mset (h ! products) \<and>
         set (h' ! result) \<subseteq> set (h ! products)"
proof -
  note frame = filterSortEffect_frame [OF assms]
  have "mset (h' ! result) \<subseteq># mset (h ! products)"
    using frame by (simp add: mset_filterSort)
  moreover from this have "set (h' ! result) \<subseteq> set (h ! products)"
    using set_mset_mono [of "mset (h' ! result)" "mset (h ! products)"] by simp
  ultimately show ?thesis
    using frame assms(1) by auto
qed

theorem effect_leaves_products_unmutated_witness:
  "filterSortEffect [[example_product ''A'' 80 True, example_product ''B'' 20 False]] 0
     \<lparr>active_categories = [''t-shirts''], active_prices = [], active_sizes = []\<rparr> ''price-low'' =
   ([[example_product ''A'' 80 True, example_product ''B'' 20 False],
     [example_product ''A'' 80 True, example_product ''B'' 20 False],
     [example_product ''B'' 20 False, example_product ''A'' 80 True]], 2) \<and>
   [[example_product ''A'' 80 True, example_product ''B'' 20 False],
     [example_product ''A'' 80 True, example_product ''B'' 20 False],
     [example_product ''B'' 20 False, example_product ''A'' 80 True]] ! 0 =
   [[example_product ''A'' 80 True, example_product ''B'' 20 False]] ! 0"
proof -
  let ?A = "example_product ''A'' 80 True" and ?B = "example_product ''B'' 20 False"
  have len: "(0::nat) < length [[?A, ?B]]"
    by simp
  have run: "filterSortEffect [[?A, ?B]] 0
     \<lparr>active_categories = [''t-shirts''], active_prices = [], active_sizes = []\<rparr> ''price-low'' =
     ([[?A, ?B], [?A, ?B], [?B, ?A]], 2)"
    by (simp add: filterSortEffect_def spread_def array_filter_def sort_in_place_def
        applySort_def categoryPredicate_def array_includes_def example_product_def)
  show ?thesis
    using run effect_leaves_products_unmutated [OF len run] by blast
qed

end
